theory Spec2Isabelle
  imports Main
begin

section \<open>Python values and exceptions\<close>

text \<open>
  The collectors build plain Python dictionaries with string keys. A dictionary is
  an association list in insertion order; the values that occur are strings, integers,
  lists and nested dictionaries.
\<close>

datatype pyval =
    PStr string
  | PInt int
  | PList "pyval list"
  | PDict "(string \<times> pyval) list"

type_synonym pydict = "(string \<times> pyval) list"

text \<open>
  Every exception of the model is a subclass of Python's \<open>Exception\<close>, so that
  \<open>except Exception\<close> catches each of them. \<open>ClientError\<close> stands for the
  failures of the HTTP client (aiohttp); \<open>OtherException\<close> for anything else
  the network layer raises.
\<close>

datatype exn =
    NameError string
  | ValueError string
  | AttributeError string
  | FileNotFoundError string
  | ClientError string
  | OtherException string

text \<open>\<open>key in d\<close> for a dictionary \<open>d\<close>.\<close>

definition has_key :: "pydict \<Rightarrow> string \<Rightarrow> bool" where
  "has_key d k = (k \<in> set (map fst d))"

section \<open>Strings: \<open>str.strip()\<close> and \<open>int(str)\<close>\<close>

text \<open>
  Text is ASCII. The whitespace of \<open>str.strip()\<close> and of \<open>int()\<close> is then
  tab, line feed, vertical tab, form feed, carriage return, the four separators
  0x1c .. 0x1f and the space.
\<close>

definition is_space :: "char \<Rightarrow> bool" where
  "is_space c = (c \<in> set [CHR 0x09, CHR 0x0A, CHR 0x0B, CHR 0x0C, CHR 0x0D,
                            CHR 0x1C, CHR 0x1D, CHR 0x1E, CHR 0x1F, CHR '' ''])"

definition strip :: "string \<Rightarrow> string" where
  "strip s = rev (dropWhile is_space (rev (dropWhile is_space s)))"

definition is_digit :: "char \<Rightarrow> bool" where
  "is_digit c = (c \<in> set ''0123456789'')"

definition digit_val :: "char \<Rightarrow> int" where
  "digit_val c = int (of_char c) - 48"

text \<open>
  The digits of an integer literal as \<open>int()\<close> accepts them: decimal digits, with
  single underscores allowed between two digits. \<open>acc\<close> is the value read so far.
\<close>

fun py_digits :: "int \<Rightarrow> string \<Rightarrow> int option" where
  "py_digits acc [] = Some acc"
| "py_digits acc [c] = (if is_digit c then Some (10 * acc + digit_val c) else None)"
| "py_digits acc (c # d # ds) =
     (if is_digit c then py_digits (10 * acc + digit_val c) (d # ds)
      else if c = CHR ''_'' \<and> is_digit d then py_digits acc (d # ds)
      else None)"

text \<open>
  \<open>int(s)\<close> on a string: surrounding whitespace is dropped, one sign is allowed, the
  rest must be a digit followed by digits and underscores. Anything else raises
  \<open>ValueError\<close>.
\<close>

definition py_unsigned :: "string \<Rightarrow> int option" where
  "py_unsigned s = (case s of [] \<Rightarrow> None
                    | c # cs \<Rightarrow> if is_digit c then py_digits 0 s else None)"

definition py_int :: "string \<Rightarrow> exn + int" where
  "py_int s =
     (let t = strip s;
          r = (case t of
                 [] \<Rightarrow> None
               | c # cs \<Rightarrow>
                   if c = CHR ''-'' then map_option uminus (py_unsigned cs)
                   else if c = CHR ''+'' then py_unsigned cs
                   else py_unsigned t)
      in case r of
           None \<Rightarrow> Inl (ValueError s)
         | Some n \<Rightarrow> Inr n)"

section \<open>The parsed page (BeautifulSoup)\<close>

text \<open>
  A parsed page is a forest of nodes. A tag has a name, the list of its classes (the
  multi-valued \<open>class\<close> attribute), its other attributes and its children; a
  \<open>NavigableString\<close> is a piece of text.
\<close>

datatype node =
    Tag string "string list" "(string \<times> string) list" "node list"
  | NavigableString string

type_synonym soup = "node list"

text \<open>The descendants of a node in document order (the node itself excluded).\<close>

fun descendants :: "node \<Rightarrow> node list" where
  "descendants (Tag n cls ats cs) = concat (map (\<lambda>c. c # descendants c) cs)"
| "descendants (NavigableString s) = []"

definition soup_descendants :: "soup \<Rightarrow> node list" where
  "soup_descendants sp = concat (map (\<lambda>c. c # descendants c) sp)"

text \<open>
  The filter of \<open>find_all(name, class_=c)\<close> and \<open>find(name)\<close>: a tag of that
  name which, when a class is asked for, carries it among its classes.
\<close>

fun matches :: "string \<Rightarrow> string option \<Rightarrow> node \<Rightarrow> bool" where
  "matches n c (Tag m cls ats cs) =
     (m = n \<and> (case c of None \<Rightarrow> True | Some k \<Rightarrow> k \<in> set cls))"
| "matches n c (NavigableString s) = False"

definition find_all :: "string \<Rightarrow> string option \<Rightarrow> soup \<Rightarrow> node list" where
  "find_all n c sp = filter (matches n c) (soup_descendants sp)"

definition soup_find :: "string \<Rightarrow> string option \<Rightarrow> soup \<Rightarrow> node option" where
  "soup_find n c sp = (case find_all n c sp of [] \<Rightarrow> None | x # xs \<Rightarrow> Some x)"

text \<open>\<open>element.find(name)\<close> searches below the element.\<close>

fun contents :: "node \<Rightarrow> node list" where
  "contents (Tag n cls ats cs) = cs"
| "contents (NavigableString s) = []"

definition tag_find :: "string \<Rightarrow> node \<Rightarrow> node option" where
  "tag_find n e = soup_find n None (contents e)"

text \<open>\<open>element.get(key, default)\<close> reads an attribute.\<close>

fun attrs :: "node \<Rightarrow> (string \<times> string) list" where
  "attrs (Tag n cls ats cs) = ats"
| "attrs (NavigableString s) = []"

definition tag_get :: "node \<Rightarrow> string \<Rightarrow> string \<Rightarrow> string" where
  "tag_get element k d = (case map_of (attrs element) k of None \<Rightarrow> d | Some v \<Rightarrow> v)"

text \<open>\<open>element.text\<close>: all the strings below the element, concatenated.\<close>

fun get_text :: "node \<Rightarrow> string" where
  "get_text (Tag n cls ats cs) = concat (map get_text cs)"
| "get_text (NavigableString s) = s"

section \<open>The extractors of \<open>Code4renaCollector\<close>\<close>

text \<open>
  \<open>extract_findings\<close> starts from the empty list and appends one dictionary for
  each \<open>div\<close> of class \<open>finding\<close>, in the order \<open>find_all\<close> yields them.
\<close>

definition finding_of :: "node \<Rightarrow> pydict" where
  "finding_of element =
     [(''severity'', PStr (tag_get element ''data-severity'' ''unknown'')),
      (''title'', PStr (case tag_find ''h4'' element of
                          Some h \<Rightarrow> strip (get_text h) | None \<Rightarrow> '''')),
      (''description'', PStr (case tag_find ''p'' element of
                                Some p \<Rightarrow> strip (get_text p) | None \<Rightarrow> ''''))]"

definition extract_findings :: "soup \<Rightarrow> pydict list" where
  "extract_findings sp =
     foldl (\<lambda>findings element. findings @ [finding_of element]) []
       (find_all ''div'' (Some ''finding'') sp)"

definition extract_prize_pool :: "soup \<Rightarrow> string" where
  "extract_prize_pool sp =
     (case soup_find ''div'' (Some ''prize-pool'') sp of
        Some prize_element \<Rightarrow> strip (get_text prize_element)
      | None \<Rightarrow> ''N/A'')"

definition extract_participants :: "soup \<Rightarrow> exn + int" where
  "extract_participants sp =
     (case soup_find ''span'' (Some ''participants-count'') sp of
        Some participants_element \<Rightarrow> py_int (get_text participants_element)
      | None \<Rightarrow> Inr 0)"

section \<open>\<open>BaseCollector.validate_data\<close>\<close>

definition required_fields :: "string list" where
  "required_fields = [''title'', ''platform'', ''date'', ''findings'']"

definition validate_data :: "pydict \<Rightarrow> bool" where
  "validate_data data = list_all (\<lambda>field. has_key data field) required_fields"

section \<open>The world around a collector\<close>

text \<open>
  What a run leaves behind is a trace of events: the calls to the logger, the lines
  printed by the scheduler and its sleeps, in the order they happen.
\<close>

datatype event =
    Info_starting int
  | Info_collected nat
  | Info_saved string
  | Error_collecting string exn
  | Print_collector_error exn
  | Sleep nat

text \<open>
  The environment answers what the program cannot decide: the outcome of the
  \<open>k\<close>-th HTTP request (the fetched page, parsed, or the exception raised), the time
  at the \<open>k\<close>-th reading of the clock, the two renderings of a time, and the text
  \<open>json.dumps\<close> would give.
\<close>

record env =
  net :: "nat \<Rightarrow> string \<Rightarrow> exn + soup"
  clock :: "nat \<Rightarrow> nat"
  isoformat :: "nat \<Rightarrow> string"
  strftime :: "nat \<Rightarrow> string"
  json_dumps :: "pyval \<Rightarrow> string"

text \<open>
  The state: the trace, the files on disk, whether the directory \<open>data/raw\<close>
  exists, the two tables of the database, and how many requests and clock readings
  have been made.
\<close>

record world =
  events :: "event list"
  files :: "string \<rightharpoonup> string"
  raw_dir :: bool
  audit_reports :: "pydict list"
  findings :: "pydict list"
  requests :: nat
  clock_reads :: nat

definition emit :: "event \<Rightarrow> world \<Rightarrow> world" where
  "emit ev w = w\<lparr>events := events w @ [ev]\<rparr>"

text \<open>\<open>session.get(url)\<close>, \<open>response.text()\<close> and the parse of the page.\<close>

definition http_get :: "env \<Rightarrow> string \<Rightarrow> world \<Rightarrow> (exn + soup) \<times> world" where
  "http_get ev u w = (net ev (requests w) u, w\<lparr>requests := Suc (requests w)\<rparr>)"

definition datetime_now :: "env \<Rightarrow> world \<Rightarrow> nat \<times> world" where
  "datetime_now ev w = (clock ev (clock_reads w), w\<lparr>clock_reads := Suc (clock_reads w)\<rparr>)"

section \<open>\<open>BaseCollector.save_raw_data\<close>\<close>

text \<open>
  The names bound at the top level of the module \<open>base_collector\<close>: its imports
  and its class. A name that is not among them (and is no builtin) raises
  \<open>NameError\<close> when it is read.
\<close>

definition base_collector_names :: "string list" where
  "base_collector_names =
     [''ABC'', ''abstractmethod'', ''Dict'', ''List'', ''Any'', ''logging'', ''datetime'',
      ''BaseCollector'']"

text \<open>
  \<open>open(filepath, 'w')\<close> raises when the directory is missing and otherwise
  leaves an empty file; the body of the \<open>with\<close> then reads the name \<open>json\<close>.
\<close>

definition save_raw_data ::
  "env \<Rightarrow> string \<Rightarrow> pyval \<Rightarrow> string \<Rightarrow> world \<Rightarrow> (exn + unit) \<times> world" where
  "save_raw_data ev name data filename w =
     (let (t, w1) = datetime_now ev w;
          timestamp = strftime ev t;
          filepath = ''data/raw/'' @ name @ ''_'' @ filename @ ''_'' @ timestamp @ ''.json''
      in if \<not> raw_dir w1 then (Inl (FileNotFoundError filepath), w1)
         else
           (let w2 = w1\<lparr>files := (files w1)(filepath \<mapsto> '''')\<rparr>
            in if ''json'' \<in> set base_collector_names
               then (Inr (),
                     emit (Info_saved filepath)
                       (w2\<lparr>files := (files w2)(filepath \<mapsto> json_dumps ev data)\<rparr>))
               else (Inl (NameError ''json''), w2)))"

section \<open>\<open>Code4renaCollector\<close>\<close>

definition collector_name :: string where
  "collector_name = ''Code4rena''"

definition base_url :: string where
  "base_url = ''https://code4rena.com''"

definition contests_url :: string where
  "contests_url = base_url @ ''/contests''"

record contest =
  slug :: string
  title :: string
  url :: string

text \<open>\<open>xs[:k]\<close>: a negative \<open>k\<close> counts from the end.\<close>

definition slice_to :: "int \<Rightarrow> 'a list \<Rightarrow> 'a list" where
  "slice_to k xs = (if 0 \<le> k then take (nat k) xs else take (length xs - nat (- k)) xs)"

text \<open>
  One entry of the contest list. \<open>element.find('h3').text\<close> raises
  \<open>AttributeError\<close> when the card has no \<open>h3\<close>.
\<close>

definition contest_of :: "node \<Rightarrow> exn + contest" where
  "contest_of element =
     (case tag_find ''h3'' element of
        None \<Rightarrow> Inl (AttributeError ''text'')
      | Some h \<Rightarrow>
          Inr \<lparr>slug = tag_get element ''data-slug'' '''',
               title = strip (get_text h),
               url = base_url @ ''/contests/'' @ tag_get element ''data-slug'' ''''\<rparr>)"

fun contests_loop :: "node list \<Rightarrow> contest list \<Rightarrow> exn + contest list" where
  "contests_loop [] contests = Inr contests"
| "contests_loop (element # rest) contests =
     (case contest_of element of
        Inl e \<Rightarrow> Inl e
      | Inr c \<Rightarrow> contests_loop rest (contests @ [c]))"

definition get_contests :: "env \<Rightarrow> int \<Rightarrow> world \<Rightarrow> (exn + contest list) \<times> world" where
  "get_contests ev limit w =
     (case http_get ev contests_url w of
        (Inl e, w1) \<Rightarrow> (Inl e, w1)
      | (Inr sp, w1) \<Rightarrow>
          (contests_loop (slice_to limit (find_all ''div'' (Some ''contest-card'') sp)) [],
           w1))"

text \<open>
  The dictionary of \<open>collect_contest_data\<close> is built key by key: the clock is read
  for \<open>date\<close> before \<open>extract_participants\<close> can raise.
\<close>

definition collect_contest_data ::
  "env \<Rightarrow> contest \<Rightarrow> world \<Rightarrow> (exn + pydict) \<times> world" where
  "collect_contest_data ev c w =
     (case http_get ev (url c) w of
        (Inl e, w1) \<Rightarrow> (Inl e, w1)
      | (Inr sp, w1) \<Rightarrow>
          (let (t, w2) = datetime_now ev w1
           in case extract_participants sp of
                Inl e \<Rightarrow> (Inl e, w2)
              | Inr n \<Rightarrow>
                  (Inr [(''platform'', PStr ''Code4rena''),
                        (''title'', PStr (title c)),
                        (''url'', PStr (url c)),
                        (''date'', PStr (isoformat ev t)),
                        (''findings'', PList (map PDict (extract_findings sp))),
                        (''prize_pool'', PStr (extract_prize_pool sp)),
                        (''participants'', PInt n)],
                   w2)))"

text \<open>
  The body of the loop of \<open>collect\<close>, with its \<open>try\<close>: the report is appended
  before \<open>save_raw_data\<close> is called, and whatever is raised is logged with the slug.
\<close>

definition collect_step ::
  "env \<Rightarrow> contest \<Rightarrow> pydict list \<times> world \<Rightarrow> pydict list \<times> world" where
  "collect_step ev c st =
     (case st of (reports, w) \<Rightarrow>
        (case collect_contest_data ev c w of
           (Inl e, w1) \<Rightarrow> (reports, emit (Error_collecting (slug c) e) w1)
         | (Inr report, w1) \<Rightarrow>
             if report \<noteq> [] then
               (case save_raw_data ev collector_name (PDict report) (slug c) w1 of
                  (Inl e, w2) \<Rightarrow> (reports @ [report], emit (Error_collecting (slug c) e) w2)
                | (Inr u, w2) \<Rightarrow> (reports @ [report], w2))
             else (reports, w1)))"

definition collect_loop ::
  "env \<Rightarrow> contest list \<Rightarrow> pydict list \<times> world \<Rightarrow> pydict list \<times> world" where
  "collect_loop ev contests st = foldl (\<lambda>s c. collect_step ev c s) st contests"

definition collect :: "env \<Rightarrow> int \<Rightarrow> world \<Rightarrow> (exn + pydict list) \<times> world" where
  "collect ev limit w =
     (case get_contests ev limit (emit (Info_starting limit) w) of
        (Inl e, w1) \<Rightarrow> (Inl e, w1)
      | (Inr contests, w1) \<Rightarrow>
          (case collect_loop ev contests ([], w1) of
             (reports, w2) \<Rightarrow> (Inr reports, emit (Info_collected (length reports)) w2)))"

section \<open>The scheduler (\<open>run.py\<close>)\<close>



section \<open>The API (\<open>routes.py\<close>)\<close>

datatype http_error = Unprocessable_Entity | Not_Found

text \<open>
  \<open>Query(default, ge=lo, le=hi)\<close> on an integer parameter: the default when the
  parameter is omitted, a rejection (status 422) when it is out of bounds.
\<close>

definition query_int :: "int \<Rightarrow> int \<Rightarrow> int \<Rightarrow> int option \<Rightarrow> http_error + int" where
  "query_int dflt lo hi p =
     (case p of
        None \<Rightarrow> Inr dflt
      | Some v \<Rightarrow> if lo \<le> v \<and> v \<le> hi then Inr v else Inl Unprocessable_Entity)"

text \<open>
  \<open>GET /reports\<close>. The database layer is a parameter: \<open>db_get_reports\<close> is
  \<open>DatabaseOperations.get_reports\<close>.
\<close>

definition get_reports ::
  "(string option \<Rightarrow> int \<Rightarrow> world \<Rightarrow> pydict list) \<Rightarrow> string option \<Rightarrow> int option \<Rightarrow> world
     \<Rightarrow> http_error + pydict list" where
  "get_reports db_get_reports platform limit_param w =
     (case query_int 10 1 100 limit_param of
        Inl e \<Rightarrow> Inl e
      | Inr limit \<Rightarrow> Inr (db_get_reports platform limit w))"

text \<open>\<open>POST /collect\<close>.\<close>

definition trigger_collection :: "string \<Rightarrow> world \<Rightarrow> pydict \<times> world" where
  "trigger_collection platform w =
     ([(''message'', PStr (''Collection started for '' @ platform))], w)"

section \<open>Notions used to state the properties\<close>

text \<open>
  The number of finding containers of a page, counted by a walk of its own over the
  tree: the tags named \<open>div\<close> that carry the class \<open>finding\<close>.
\<close>

fun count_containers :: "node \<Rightarrow> nat" where
  "count_containers (Tag m cls ats cs) =
     (if m = ''div'' \<and> ''finding'' \<in> set cls then 1 else 0) +
     sum_list (map count_containers cs)"
| "count_containers (NavigableString s) = 0"

text \<open>
  The validity of a record in the specification's words: \<open>title\<close>, \<open>platform\<close>
  and \<open>date\<close> are present and non-empty, the key \<open>findings\<close> is present.
  A value is non-empty when Python takes it for true.
\<close>

fun truthy :: "pyval \<Rightarrow> bool" where
  "truthy (PStr s) = (s \<noteq> [])"
| "truthy (PInt n) = (n \<noteq> 0)"
| "truthy (PList xs) = (xs \<noteq> [])"
| "truthy (PDict d) = (d \<noteq> [])"

definition non_empty :: "pydict \<Rightarrow> string \<Rightarrow> bool" where
  "non_empty d k = (case map_of d k of None \<Rightarrow> False | Some v \<Rightarrow> truthy v)"

definition spec_validate_data :: "pydict \<Rightarrow> bool" where
  "spec_validate_data d =
     (non_empty d ''title'' \<and> non_empty d ''platform'' \<and> non_empty d ''date'' \<and>
      has_key d ''findings'')"

text \<open>A page with two finding containers, the second one nested and without a title.\<close>

definition findings_page :: soup where
  "findings_page =
     [Tag ''div'' [''finding''] [(''data-severity'', ''high'')]
        [Tag ''h4'' [] [] [NavigableString '' Reentrancy '']],
      Tag ''section'' [] []
        [Tag ''div'' [''finding'', ''open''] []
           [Tag ''p'' [] [] [NavigableString ''No title'']]]]"

text \<open>A record with all four keys and an empty title.\<close>

definition untitled_record :: pydict where
  "untitled_record =
     [(''title'', PStr ''''), (''platform'', PStr ''Code4rena''),
      (''date'', PStr ''2024-05-01''), (''findings'', PList [])]"

text \<open>A world in which nothing has happened yet; the directory \<open>data/raw\<close> exists.\<close>

definition fresh_world :: world where
  "fresh_world =
     \<lparr>events = [], files = Map.empty, raw_dir = True, audit_reports = [], findings = [],
      requests = 0, clock_reads = 0\<rparr>"

text \<open>
  What \<open>collect\<close> may do to the world: the trace grows at its end, a file either
  keeps its content or is left empty, the directory and the tables stay as they are.
\<close>

definition extends :: "world \<Rightarrow> world \<Rightarrow> bool" where
  "extends w w' =
     ((\<exists>es. events w' = events w @ es) \<and>
      (\<forall>p. files w' p = files w p \<or> files w' p = Some '''') \<and>
      raw_dir w' = raw_dir w \<and> audit_reports w' = audit_reports w \<and>
      findings w' = findings w)"

text \<open>The dictionary that \<open>collect_contest_data\<close> builds, for stating results.\<close>

definition report_dict :: "env \<Rightarrow> contest \<Rightarrow> soup \<Rightarrow> nat \<Rightarrow> int \<Rightarrow> pydict" where
  "report_dict ev c sp k n =
     [(''platform'', PStr ''Code4rena''),
      (''title'', PStr (title c)),
      (''url'', PStr (url c)),
      (''date'', PStr (isoformat ev (clock ev k))),
      (''findings'', PList (map PDict (extract_findings sp))),
      (''prize_pool'', PStr (extract_prize_pool sp)),
      (''participants'', PInt n)]"

text \<open>
  An index page of three contest cards, the second with an empty title, and an
  environment that serves it for every request of the index and an empty page for
  every other address.
\<close>

definition card :: "string \<Rightarrow> string \<Rightarrow> node" where
  "card s t = Tag ''div'' [''contest-card''] [(''data-slug'', s)]
                [Tag ''h3'' [] [] [NavigableString t]]"

definition index_page :: soup where
  "index_page = [card ''alpha'' ''Alpha'', card ''beta'' '''', card ''gamma'' ''Gamma'']"

definition demo_env :: env where
  "demo_env =
     \<lparr>net = (\<lambda>k u. if u = contests_url then Inr index_page else Inr []),
      clock = (\<lambda>k. k),
      isoformat = (\<lambda>t. ''2024-05-01T00:00:00''),
      strftime = (\<lambda>t. ''20240501_000000''),
      json_dumps = (\<lambda>v. ''{}'')\<rparr>"

text \<open>The contests of these cards, and two more.\<close>

definition alpha :: contest where
  "alpha = \<lparr>slug = ''alpha'', title = ''Alpha'', url = ''https://code4rena.com/contests/alpha''\<rparr>"

definition beta :: contest where
  "beta = \<lparr>slug = ''beta'', title = '''', url = ''https://code4rena.com/contests/beta''\<rparr>"

definition gamma :: contest where
  "gamma = \<lparr>slug = ''gamma'', title = ''Gamma'', url = ''https://code4rena.com/contests/gamma''\<rparr>"





section \<open>Properties of the extractors\<close>

lemma foldl_append_map: "foldl (\<lambda>acc x. acc @ [f x]) a xs = a @ map f xs"
  by (induction xs arbitrary: a) simp_all

lemma extract_findings_map:
  "extract_findings sp = map finding_of (find_all ''div'' (Some ''finding'') sp)"
  by (simp add: extract_findings_def foldl_append_map)

lemma length_filter_concat:
  "length (filter P (concat xss)) = sum_list (map (\<lambda>xs. length (filter P xs)) xss)"
  by (induction xss) simp_all

lemma count_descendants:
  "length (filter (matches ''div'' (Some ''finding'')) (x # descendants x)) =
   count_containers x"
proof (induction x)
  case (Tag m cls ats cs)
  have "sum_list (map (\<lambda>c. length (filter (matches ''div'' (Some ''finding''))
                                (c # descendants c))) cs)
        = sum_list (map count_containers cs)"
    using Tag.IH by (intro arg_cong[where f=sum_list] map_cong) auto
  then show ?case
    by (simp add: length_filter_concat comp_def)
next
  case (NavigableString s)
  show ?case by simp
qed

lemma length_find_all_findings:
  "length (find_all ''div'' (Some ''finding'') sp) = sum_list (map count_containers sp)"
  by (simp add: find_all_def soup_descendants_def length_filter_concat comp_def
      count_descendants del: filter.simps)

lemma find_all_findings_page:
  "find_all ''div'' (Some ''finding'') findings_page =
     [Tag ''div'' [''finding''] [(''data-severity'', ''high'')]
        [Tag ''h4'' [] [] [NavigableString '' Reentrancy '']],
      Tag ''div'' [''finding'', ''open''] []
        [Tag ''p'' [] [] [NavigableString ''No title'']]]"
  by (simp add: findings_page_def find_all_def soup_descendants_def)

text \<open>
  C7. \<open>extract_findings\<close> returns as many records as the page has finding
  containers, the \<open>i\<close>-th record being read from the \<open>i\<close>-th container in document
  order: its severity is the attribute \<open>data-severity\<close> or \<open>unknown\<close> when the
  attribute is absent, its title the stripped text of the \<open>h4\<close> or the empty string
  when there is none, its description the stripped text of the \<open>p\<close> or the empty
  string when there is none.
\<close>

theorem extract_findings_records:
  "length (extract_findings sp) = sum_list (map count_containers sp) \<and>
   (\<forall>i < length (extract_findings sp).
      map_of (extract_findings sp ! i) ''severity'' =
        Some (PStr (case map_of (attrs (find_all ''div'' (Some ''finding'') sp ! i))
                           ''data-severity'' of
                      None \<Rightarrow> ''unknown'' | Some v \<Rightarrow> v)) \<and>
      map_of (extract_findings sp ! i) ''title'' =
        Some (PStr (case tag_find ''h4'' (find_all ''div'' (Some ''finding'') sp ! i) of
                      None \<Rightarrow> '''' | Some h \<Rightarrow> strip (get_text h))) \<and>
      map_of (extract_findings sp ! i) ''description'' =
        Some (PStr (case tag_find ''p'' (find_all ''div'' (Some ''finding'') sp ! i) of
                      None \<Rightarrow> '''' | Some p \<Rightarrow> strip (get_text p))))"
proof -
  have len: "length (extract_findings sp) = length (find_all ''div'' (Some ''finding'') sp)"
    by (simp add: extract_findings_map)
  have nth: "extract_findings sp ! i = finding_of (find_all ''div'' (Some ''finding'') sp ! i)"
    if "i < length (extract_findings sp)" for i
    using that by (simp add: extract_findings_map)
  show ?thesis
    using len by (auto simp: nth length_find_all_findings finding_of_def tag_get_def
        split: option.splits)
qed

theorem extract_findings_records_witness:
  "length (extract_findings findings_page) = 2 \<and>
   map_of (extract_findings findings_page ! 1) ''severity'' = Some (PStr ''unknown'') \<and>
   map_of (extract_findings findings_page ! 1) ''title'' = Some (PStr '''') \<and>
   map_of (extract_findings findings_page ! 1) ''description'' = Some (PStr ''No title'')"
proof -
  have two: "length (extract_findings findings_page) = 2"
    by (simp add: extract_findings_map find_all_findings_page)
  have "(1::nat) < length (extract_findings findings_page)"
    by (simp add: two)
  with extract_findings_records [of findings_page]
  have "map_of (extract_findings findings_page ! 1) ''severity'' =
        Some (PStr (case map_of (attrs (find_all ''div'' (Some ''finding'') findings_page ! 1))
                           ''data-severity'' of
                      None \<Rightarrow> ''unknown'' | Some v \<Rightarrow> v)) \<and>
      map_of (extract_findings findings_page ! 1) ''title'' =
        Some (PStr (case tag_find ''h4'' (find_all ''div'' (Some ''finding'') findings_page ! 1) of
                      None \<Rightarrow> '''' | Some h \<Rightarrow> strip (get_text h))) \<and>
      map_of (extract_findings findings_page ! 1) ''description'' =
        Some (PStr (case tag_find ''p'' (find_all ''div'' (Some ''finding'') findings_page ! 1) of
                      None \<Rightarrow> '''' | Some p \<Rightarrow> strip (get_text p)))"
    by blast
  note rec = this [unfolded find_all_findings_page]
  show ?thesis
    using rec two
    by (simp add: tag_find_def soup_find_def find_all_def soup_descendants_def strip_def
        is_space_def)
qed

text \<open>
  C3. On a page whose participant count reads \<open>abc\<close>, \<open>extract_participants\<close>
  raises \<open>ValueError\<close>: \<open>int()\<close> is applied to the text of the node without a
  guard, so that no \<open>0\<close> is returned.
\<close>

theorem extract_participants_non_numeric:
  "extract_participants
     [Tag ''span'' [''participants-count''] [] [NavigableString ''abc'']] =
   Inl (ValueError ''abc'')"
  by (simp add: extract_participants_def soup_find_def find_all_def soup_descendants_def
      py_int_def strip_def is_space_def py_unsigned_def is_digit_def)

section \<open>Properties of \<open>validate_data\<close>\<close>

lemma has_key_map_of: "has_key d k = (map_of d k \<noteq> None)"
  by (simp add: has_key_def map_of_eq_None_iff)

text \<open>
  C2, as amended. \<open>validate_data\<close> holds exactly when the four keys \<open>title\<close>,
  \<open>platform\<close>, \<open>date\<close> and \<open>findings\<close> are present, whatever they are bound to.
\<close>

theorem validate_data_keys:
  "validate_data data =
     (\<forall>k \<in> {''title'', ''platform'', ''date'', ''findings''}. \<exists>v. map_of data k = Some v)"
  by (simp add: validate_data_def required_fields_def has_key_map_of)

theorem validate_data_keys_witness:
  "validate_data untitled_record \<and> map_of untitled_record ''title'' = Some (PStr '''')"
  using validate_data_keys [of untitled_record]
  by (simp add: untitled_record_def)

text \<open>
  C2, as stated, fails: a record whose title is the empty string passes
  \<open>validate_data\<close>, while the specification's validity rejects it.
\<close>

theorem validate_data_empty_title:
  "validate_data untitled_record \<and> \<not> spec_validate_data untitled_record"
  by (simp add: untitled_record_def validate_data_def required_fields_def has_key_def
      spec_validate_data_def non_empty_def)

section \<open>Properties of the API\<close>

text \<open>
  C9. \<open>GET /reports\<close> rejects a limit of 101, and any limit below 1 or above 100;
  it serves every limit from 1 to 100; without a limit it does what it does for the
  limit 10.
\<close>

theorem get_reports_limit:
  "get_reports db platform (Some 101) w = Inl Unprocessable_Entity \<and>
   (\<forall>l. l < 1 \<or> 100 < l \<longrightarrow> get_reports db platform (Some l) w = Inl Unprocessable_Entity) \<and>
   (\<forall>l. 1 \<le> l \<and> l \<le> 100 \<longrightarrow> get_reports db platform (Some l) w = Inr (db platform l w)) \<and>
   get_reports db platform None w = get_reports db platform (Some 10) w"
  by (auto simp: get_reports_def query_int_def)

theorem get_reports_limit_witness:
  "get_reports (\<lambda>p l w. []) None (Some 0) fresh_world = Inl Unprocessable_Entity \<and>
   get_reports (\<lambda>p l w. []) None (Some 100) fresh_world = Inr [] \<and>
   get_reports (\<lambda>p l w. []) None None fresh_world = Inr []"
proof -
  have lo: "(0::int) < 1 \<or> 100 < (0::int)" and hi: "(1::int) \<le> 100 \<and> (100::int) \<le> 100"
    and ten: "(1::int) \<le> 10 \<and> (10::int) \<le> 100"
    by simp_all
  from get_reports_limit [of "\<lambda>p l w. []" None fresh_world] lo hi ten show ?thesis
    by metis
qed

text \<open>
  C10. \<open>POST /collect\<close> answers with the message \<open>Collection started for\<close>
  followed by the platform and leaves the world as it was: no request is sent, no
  event recorded, no file and no row written.
\<close>

theorem trigger_collection_frame:
  "fst (trigger_collection platform w) =
     [(''message'', PStr (''Collection started for '' @ platform))] \<and>
   snd (trigger_collection platform w) = w"
  by (simp add: trigger_collection_def)

section \<open>Properties of the scheduler\<close>



section \<open>Properties of the collector\<close>


lemma extends_trans: "extends w1 w2 \<Longrightarrow> extends w2 w3 \<Longrightarrow> extends w1 w3"
  unfolding extends_def by (metis append.assoc)

lemma extends_emit: "extends w (emit e w)"
  by (simp add: extends_def emit_def)

lemma save_raw_data_eq:
  "save_raw_data ev name data filename w =
     (if raw_dir w
      then (Inl (NameError ''json''),
            w\<lparr>clock_reads := Suc (clock_reads w),
              files := (files w)(''data/raw/'' @ name @ ''_'' @ filename @ ''_'' @
                          strftime ev (clock ev (clock_reads w)) @ ''.json'' \<mapsto> '''')\<rparr>)
      else (Inl (FileNotFoundError (''data/raw/'' @ name @ ''_'' @ filename @ ''_'' @
                          strftime ev (clock ev (clock_reads w)) @ ''.json'')),
            w\<lparr>clock_reads := Suc (clock_reads w)\<rparr>))"
  by (simp add: save_raw_data_def datetime_now_def base_collector_names_def Let_def)

lemma save_raw_data_raises: "\<exists>e. fst (save_raw_data ev name data filename w) = Inl e"
  by (simp add: save_raw_data_eq)

lemma save_raw_data_world:
  "extends w (snd (save_raw_data ev name data filename w)) \<and>
   requests (snd (save_raw_data ev name data filename w)) = requests w \<and>
   clock_reads (snd (save_raw_data ev name data filename w)) = Suc (clock_reads w)"
  by (simp add: save_raw_data_eq extends_def)


lemma collect_contest_data_ok:
  "net ev (requests w) (url c) = Inr sp \<Longrightarrow> extract_participants sp = Inr n \<Longrightarrow>
   collect_contest_data ev c w =
     (Inr (report_dict ev c sp (clock_reads w) n),
      w\<lparr>requests := Suc (requests w), clock_reads := Suc (clock_reads w)\<rparr>)"
  by (simp add: collect_contest_data_def http_get_def datetime_now_def report_dict_def)


lemma collect_contest_data_report:
  "fst (collect_contest_data ev c w) = Inr r \<Longrightarrow>
   r \<noteq> [] \<and> validate_data r \<and> map_of r ''title'' = Some (PStr (title c))"
  by (auto simp: collect_contest_data_def http_get_def datetime_now_def validate_data_def
      required_fields_def has_key_def split: sum.splits)

lemma collect_step_fail:
  "fst (collect_contest_data ev c w) = Inl e \<Longrightarrow>
   collect_step ev c (rs, w) =
     (rs, emit (Error_collecting (slug c) e) (snd (collect_contest_data ev c w)))"
  by (cases "collect_contest_data ev c w") (simp add: collect_step_def)

lemma collect_step_ok:
  assumes "fst (collect_contest_data ev c w) = Inr r"
  shows "\<exists>e. collect_step ev c (rs, w) =
           (rs @ [r], emit (Error_collecting (slug c) e)
              (snd (save_raw_data ev collector_name (PDict r) (slug c)
                 (snd (collect_contest_data ev c w)))))"
proof -
  obtain w1 where w1: "collect_contest_data ev c w = (Inr r, w1)"
    using assms by (cases "collect_contest_data ev c w") simp
  have ne: "r \<noteq> []"
    using assms collect_contest_data_report by blast
  obtain e w2 where s: "save_raw_data ev collector_name (PDict r) (slug c) w1 = (Inl e, w2)"
    using save_raw_data_raises [of ev collector_name "PDict r" "slug c" w1]
    by (cases "save_raw_data ev collector_name (PDict r) (slug c) w1") auto
  show ?thesis
    using w1 ne s by (intro exI [of _ e]) (simp add: collect_step_def)
qed


lemma collect_step_reports:
  "fst (collect_step ev c (rs, w)) = rs \<or>
   (\<exists>r. fst (collect_step ev c (rs, w)) = rs @ [r] \<and> validate_data r \<and>
        map_of r ''title'' = Some (PStr (title c)) \<and>
        fst (collect_contest_data ev c w) = Inr r)"
proof (cases "fst (collect_contest_data ev c w)")
  case (Inl e)
  then show ?thesis by (simp add: collect_step_fail)
next
  case (Inr r)
  with collect_step_ok [OF Inr, of rs] collect_contest_data_report [OF Inr]
  show ?thesis by auto
qed

lemma collect_loop_Nil: "collect_loop ev [] st = st"
  by (simp add: collect_loop_def)

lemma collect_loop_Cons:
  "collect_loop ev (c # cs) st = collect_loop ev cs (collect_step ev c st)"
  by (simp add: collect_loop_def)


lemma collect_loop_reports:
  "\<exists>new. fst (collect_loop ev cs (rs, w)) = rs @ new \<and> length new \<le> length cs \<and>
         (\<forall>r \<in> set new. validate_data r \<and> (\<exists>t. map_of r ''title'' = Some (PStr t)))"
proof (induction cs arbitrary: rs w)
  case Nil
  show ?case by (simp add: collect_loop_Nil)
next
  case (Cons c cs)
  obtain rs1 w1 where st: "collect_step ev c (rs, w) = (rs1, w1)"
    by (cases "collect_step ev c (rs, w)")
  from Cons.IH [of rs1 w1] obtain new where
    new: "fst (collect_loop ev cs (rs1, w1)) = rs1 @ new" "length new \<le> length cs"
         "\<forall>r \<in> set new. validate_data r \<and> (\<exists>t. map_of r ''title'' = Some (PStr t))"
    by blast
  from collect_step_reports [of ev c rs w]
  consider "rs1 = rs"
    | r where "rs1 = rs @ [r]" "validate_data r" "\<exists>t. map_of r ''title'' = Some (PStr t)"
    by (auto simp: st)
  then show ?case
  proof cases
    case 1
    with new show ?thesis
      by (intro exI [of _ new]) (simp add: collect_loop_Cons st)
  next
    case 2
    with new show ?thesis
      by (intro exI [of _ "r # new"]) (simp add: collect_loop_Cons st)
  qed
qed

lemma contests_loop_map:
  "contests_loop els acc = Inr cs \<Longrightarrow>
   \<exists>new. cs = acc @ new \<and> map Inr new = map contest_of els"
proof (induction els arbitrary: acc)
  case Nil
  then show ?case by simp
next
  case (Cons el els)
  then obtain c where c: "contest_of el = Inr c"
    by (cases "contest_of el") simp_all
  with Cons.prems have "contests_loop els (acc @ [c]) = Inr cs" by simp
  from Cons.IH [OF this] obtain new where
    "cs = (acc @ [c]) @ new" "map Inr new = map contest_of els" by blast
  with c show ?case
    by (intro exI [of _ "c # new"]) simp
qed

lemma get_contests_world:
  "snd (get_contests ev limit w) = w\<lparr>requests := Suc (requests w)\<rparr>"
  by (simp add: get_contests_def http_get_def split: sum.splits)

lemma get_contests_Inr:
  assumes "fst (get_contests ev limit w) = Inr cs"
  shows "\<exists>page. net ev (requests w) contests_url = Inr page \<and>
           map Inr cs =
             map contest_of (slice_to limit (find_all ''div'' (Some ''contest-card'') page))"
proof (cases "net ev (requests w) contests_url")
  case (Inl e)
  with assms show ?thesis by (simp add: get_contests_def http_get_def)
next
  case (Inr page)
  with assms have "contests_loop
      (slice_to limit (find_all ''div'' (Some ''contest-card'') page)) [] = Inr cs"
    by (simp add: get_contests_def http_get_def)
  from contests_loop_map [OF this] Inr show ?thesis by auto
qed

lemma collect_Inr:
  assumes "fst (collect ev limit w) = Inr rs"
  shows "\<exists>cs. fst (get_contests ev limit (emit (Info_starting limit) w)) = Inr cs \<and>
           rs = fst (collect_loop ev cs
                       ([], snd (get_contests ev limit (emit (Info_starting limit) w))))"
proof (cases "get_contests ev limit (emit (Info_starting limit) w)")
  case (Pair x w1)
  show ?thesis
  proof (cases x)
    case (Inl e)
    with Pair assms show ?thesis by (simp add: collect_def)
  next
    case (Inr cs)
    with Pair assms show ?thesis
      by (simp add: collect_def split: prod.splits)
  qed
qed



lemma collect_step_ok_counters:
  assumes "net ev (requests w) (url c) = Inr sp" and "extract_participants sp = Inr n"
  shows "\<exists>w'. collect_step ev c (rs, w) = (rs @ [report_dict ev c sp (clock_reads w) n], w') \<and>
           requests w' = Suc (requests w) \<and> clock_reads w' = Suc (Suc (clock_reads w)) \<and>
           extends w w'"
proof -
  let ?r = "report_dict ev c sp (clock_reads w) n"
  let ?w1 = "w\<lparr>requests := Suc (requests w), clock_reads := Suc (clock_reads w)\<rparr>"
  have d: "collect_contest_data ev c w = (Inr ?r, ?w1)"
    using assms by (rule collect_contest_data_ok)
  then have "fst (collect_contest_data ev c w) = Inr ?r" by simp
  from collect_step_ok [OF this, of rs] obtain e where
    e: "collect_step ev c (rs, w) =
          (rs @ [?r], emit (Error_collecting (slug c) e)
             (snd (save_raw_data ev collector_name (PDict ?r) (slug c) ?w1)))"
    by (auto simp: d)
  let ?w2 = "snd (save_raw_data ev collector_name (PDict ?r) (slug c) ?w1)"
  have s: "extends ?w1 ?w2" "requests ?w2 = requests ?w1"
    "clock_reads ?w2 = Suc (clock_reads ?w1)"
    using save_raw_data_world [of ?w1 ev collector_name "PDict ?r" "slug c"] by blast+
  have "extends w ?w1" by (simp add: extends_def)
  then have "extends w ?w2" using s(1) by (rule extends_trans)
  then have x: "extends w (emit (Error_collecting (slug c) e) ?w2)"
    using extends_emit by (rule extends_trans)
  have "requests (emit (Error_collecting (slug c) e) ?w2) = Suc (requests w)"
    "clock_reads (emit (Error_collecting (slug c) e) ?w2) = Suc (Suc (clock_reads w))"
    using s(2,3) by (simp_all add: emit_def)
  with e x show ?thesis by blast
qed


lemma length_slice_to: "0 \<le> k \<Longrightarrow> slice_to k xs = take (nat k) xs"
  by (simp add: slice_to_def)



text \<open>
  C6, as amended. For a limit \<open>N \<ge> 0\<close>, \<open>collect\<close> returns at most \<open>N\<close>
  reports, and at most as many as the index page has contest cards: the contests it
  visits are those of the first \<open>N\<close> cards, in the order of the page.
\<close>

theorem collect_at_most_limit:
  assumes "0 \<le> limit" and "fst (collect ev limit w) = Inr reports"
  shows "int (length reports) \<le> limit \<and>
         (\<exists>page cs.
            net ev (requests w) contests_url = Inr page \<and>
            fst (get_contests ev limit (emit (Info_starting limit) w)) = Inr cs \<and>
            map Inr cs =
              map contest_of (take (nat limit) (find_all ''div'' (Some ''contest-card'') page)) \<and>
            length reports \<le> length cs \<and>
            length reports \<le> length (find_all ''div'' (Some ''contest-card'') page))"
proof -
  let ?w0 = "emit (Info_starting limit) w"
  from collect_Inr [OF assms(2)] obtain cs where
    cs: "fst (get_contests ev limit ?w0) = Inr cs"
    and rs: "reports = fst (collect_loop ev cs ([], snd (get_contests ev limit ?w0)))"
    by blast
  from get_contests_Inr [OF cs] obtain page where
    page: "net ev (requests w) contests_url = Inr page"
    and m: "map Inr cs =
      map contest_of (slice_to limit (find_all ''div'' (Some ''contest-card'') page))"
    by (auto simp: emit_def)
  let ?cards = "find_all ''div'' (Some ''contest-card'') page"
  have m': "map Inr cs = map contest_of (take (nat limit) ?cards)"
    using m assms(1) by (simp add: length_slice_to)
  have "length (map Inr cs :: (exn + contest) list) = length (take (nat limit) ?cards)"
    by (simp only: m' length_map)
  then have len: "length cs = min (length ?cards) (nat limit)"
    by simp
  from collect_loop_reports [of ev cs "[]"] rs have le: "length reports \<le> length cs"
    by auto
  have "int (length reports) \<le> limit"
    using le len assms(1) by linarith
  moreover have "length reports \<le> length ?cards"
    using le len by linarith
  ultimately show ?thesis
    using page cs m' le by blast
qed


section \<open>The collector on the example pages\<close>

lemma contest_of_card:
  "contest_of (card s t) =
     Inr \<lparr>slug = s, title = strip t, url = ''https://code4rena.com/contests/'' @ s\<rparr>"
  by (simp add: contest_of_def card_def tag_find_def soup_find_def find_all_def
      soup_descendants_def tag_get_def base_url_def)

lemma find_all_card_Cons:
  "find_all ''div'' (Some ''contest-card'') (card s t # sp) =
   card s t # find_all ''div'' (Some ''contest-card'') sp"
  by (simp add: find_all_def soup_descendants_def card_def)

lemma find_all_Nil: "find_all n c [] = []"
  by (simp add: find_all_def soup_descendants_def)

lemma strip_examples:
  "strip ''Alpha'' = ''Alpha''" "strip '''' = ''''" "strip ''Gamma'' = ''Gamma''"
  "strip ''Delta'' = ''Delta''" "strip ''Epsilon'' = ''Epsilon''"
  by (simp_all add: strip_def is_space_def)

lemma extract_participants_Nil: "extract_participants [] = Inr 0"
  by (simp add: extract_participants_def soup_find_def find_all_Nil)

lemma contests_url_eq: "contests_url = ''https://code4rena.com/contests''"
  by (simp add: contests_url_def base_url_def)

lemma get_contests_demo:
  "fst (get_contests demo_env limit w) =
     contests_loop (slice_to limit
        [card ''alpha'' ''Alpha'', card ''beta'' '''', card ''gamma'' ''Gamma'']) []"
  by (simp add: get_contests_def http_get_def demo_env_def index_page_def
      find_all_card_Cons find_all_Nil)


lemma get_contests_demo_two:
  "fst (get_contests demo_env 2 w) = Inr [alpha, beta]"
  by (simp add: get_contests_demo slice_to_def contest_of_card strip_examples alpha_def
      beta_def eval_nat_numeral)

lemma get_contests_demo_minus:
  "fst (get_contests demo_env (- 1) w) = Inr [alpha, beta]"
  by (simp add: get_contests_demo slice_to_def contest_of_card strip_examples alpha_def
      beta_def eval_nat_numeral)

lemma net_demo:
  "net demo_env k (url alpha) = Inr []" "net demo_env k (url beta) = Inr []"
  "net demo_env k (url gamma) = Inr []"
  by (simp_all add: demo_env_def contests_url_eq alpha_def beta_def gamma_def)

lemma collect_demo_loop:
  assumes "requests w = 1" and "clock_reads w = 0"
  shows "fst (collect_loop demo_env [alpha, beta] ([], w)) =
           [report_dict demo_env alpha [] 0 0, report_dict demo_env beta [] 2 0]"
    and "fst (collect_loop demo_env [alpha, beta, gamma] ([], w)) =
           [report_dict demo_env alpha [] 0 0, report_dict demo_env beta [] 2 0,
            report_dict demo_env gamma [] 4 0]"
proof -
  let ?ra = "report_dict demo_env alpha [] 0 0"
  let ?rb = "report_dict demo_env beta [] 2 0"
  let ?rc = "report_dict demo_env gamma [] 4 0"
  from collect_step_ok_counters [of demo_env w alpha "[]" 0 "[]"]
    net_demo(1) extract_participants_Nil assms
  obtain w1 where s1: "collect_step demo_env alpha ([], w) = ([?ra], w1)"
    and w1: "requests w1 = 2" "clock_reads w1 = 2"
    by auto
  from collect_step_ok_counters [of demo_env w1 beta "[]" 0 "[?ra]"]
    net_demo(2) extract_participants_Nil w1
  obtain w2 where s2: "collect_step demo_env beta ([?ra], w1) = ([?ra, ?rb], w2)"
    and w2: "requests w2 = 3" "clock_reads w2 = 4"
    by auto
  from collect_step_ok_counters [of demo_env w2 gamma "[]" 0 "[?ra, ?rb]"]
    net_demo(3) extract_participants_Nil w2
  obtain w3 where s3: "collect_step demo_env gamma ([?ra, ?rb], w2) = ([?ra, ?rb, ?rc], w3)"
    by auto
  show "fst (collect_loop demo_env [alpha, beta] ([], w)) = [?ra, ?rb]"
    by (simp only: collect_loop_Cons collect_loop_Nil s1 s2 fst_conv)
  show "fst (collect_loop demo_env [alpha, beta, gamma] ([], w)) = [?ra, ?rb, ?rc]"
    by (simp only: collect_loop_Cons collect_loop_Nil s1 s2 s3 fst_conv)
qed

lemma fst_collect:
  assumes "fst (get_contests ev limit (emit (Info_starting limit) w)) = Inr cs"
  shows "fst (collect ev limit w) =
           Inr (fst (collect_loop ev cs
                  ([], snd (get_contests ev limit (emit (Info_starting limit) w)))))"
  using assms
  by (cases "get_contests ev limit (emit (Info_starting limit) w)")
     (simp add: collect_def split: prod.splits)

lemma counters_after_index:
  "requests (snd (get_contests ev limit (emit (Info_starting limit) fresh_world))) = 1"
  "clock_reads (snd (get_contests ev limit (emit (Info_starting limit) fresh_world))) = 0"
  by (simp_all add: get_contests_world emit_def fresh_world_def)


lemma collect_demo_two:
  "fst (collect demo_env 2 fresh_world) =
     Inr [report_dict demo_env alpha [] 0 0, report_dict demo_env beta [] 2 0]"
  by (simp only: fst_collect [OF get_contests_demo_two]
      collect_demo_loop(1) [OF counters_after_index])

lemma collect_demo_minus:
  "fst (collect demo_env (- 1) fresh_world) =
     Inr [report_dict demo_env alpha [] 0 0, report_dict demo_env beta [] 2 0]"
  by (simp only: fst_collect [OF get_contests_demo_minus]
      collect_demo_loop(1) [OF counters_after_index])





text \<open>
  C6, as stated, fails: with the limit \<open>-1\<close> the slice drops the last of the three
  cards, and \<open>collect\<close> returns two reports.
\<close>

theorem collect_negative_limit:
  "fst (collect demo_env (- 1) fresh_world) =
     Inr [report_dict demo_env alpha [] 0 0, report_dict demo_env beta [] 2 0] \<and>
   \<not> int (length [report_dict demo_env alpha [] 0 0, report_dict demo_env beta [] 2 0]) \<le> - 1"
  by (simp add: collect_demo_minus)

theorem collect_at_most_limit_witness:
  "(0::int) \<le> 2 \<and>
   fst (collect demo_env 2 fresh_world) =
     Inr [report_dict demo_env alpha [] 0 0, report_dict demo_env beta [] 2 0] \<and>
   int (length [report_dict demo_env alpha [] 0 0, report_dict demo_env beta [] 2 0]) \<le> 2 \<and>
   length [report_dict demo_env alpha [] 0 0, report_dict demo_env beta [] 2 0] \<le>
     length (find_all ''div'' (Some ''contest-card'') index_page)"
proof -
  have z: "(0::int) \<le> 2" by simp
  have p: "net demo_env (requests fresh_world) contests_url = Inr index_page"
    by (simp add: demo_env_def)
  from collect_at_most_limit [OF z collect_demo_two] p z collect_demo_two
  show ?thesis by auto
qed




end
